theory Spec2Isabelle
  imports Complex_Main "HOL-Library.Sublist"
begin

section \<open>ScrollGuard native classifier: a shallow embedding\<close>

text \<open>
  The development follows the C++ sources under \<^verbatim>\<open>app/src/main/cpp\<close>:
  \<^verbatim>\<open>include/llama_wrapper.h\<close>, \<^verbatim>\<open>jni/llama_jni.cpp\<close>,
  \<^verbatim>\<open>jni/content_classifier.cpp\<close> and \<^verbatim>\<open>jni/model_loader.cpp\<close>.

  Conventions of the embedding.
  \<^item> \<^verbatim>\<open>std::string\<close> is \<open>string\<close> (a list of 8-bit \<open>char\<close>s).
  \<^item> \<^verbatim>\<open>float\<close> is \<open>real\<close>. The heuristic classifier only stores, compares and
    takes maxima of literal constants, all of which are exact on floats. Its capitals
    test compares a quotient of two counters with one half; the rounded quotient
    exceeds one half exactly when the exact one does, as long as the text has fewer
    than \<open>2^24\<close> letters. The sums of the context adjustments and the quotients of the
    progress events are the exact ones, not the rounded ones.
  \<^item> The counters of type \<^verbatim>\<open>int\<close> and \<^verbatim>\<open>size_t\<close> are unbounded (\<open>nat\<close>,
    \<open>int\<close>): they count characters of one in-memory string and table entries.
  \<^item> Library calls do not throw (no allocation failure, no resource error of the
    regular-expression engine), so the \<^verbatim>\<open>catch\<close> block of \<^verbatim>\<open>classify_content\<close> is
    not entered.
  \<^item> The build is the one without \<^verbatim>\<open>LLAMA_CPP_AVAILABLE\<close> (fallback mode): every
    \<^verbatim>\<open>#ifdef LLAMA_CPP_AVAILABLE\<close> block is absent.
  \<^item> Clock readings are inputs: a function that measures elapsed time takes the
    measured number of milliseconds as a parameter. Logging is not modelled.
\<close>

subsection \<open>Character classes and string primitives\<close>

text \<open>\<^verbatim>\<open>std::isupper\<close>, \<^verbatim>\<open>std::isalpha\<close>, \<^verbatim>\<open>::tolower\<close> and the regex class
  \<^verbatim>\<open>\s\<close> in the "C" locale.\<close>

definition upper_letters :: string where
  "upper_letters = ''ABCDEFGHIJKLMNOPQRSTUVWXYZ''"

definition lower_letters :: string where
  "lower_letters = ''abcdefghijklmnopqrstuvwxyz''"

definition c_isupper :: "char \<Rightarrow> bool" where
  "c_isupper c \<longleftrightarrow> c \<in> set upper_letters"

definition c_isalpha :: "char \<Rightarrow> bool" where
  "c_isalpha c \<longleftrightarrow> c \<in> set upper_letters \<or> c \<in> set lower_letters"

definition c_tolower :: "char \<Rightarrow> char" where
  "c_tolower c = (case map_of (zip upper_letters lower_letters) c of
                    Some l \<Rightarrow> l | None \<Rightarrow> c)"

text \<open>Space, \<^verbatim>\<open>\t\<close>, \<^verbatim>\<open>\n\<close>, \<^verbatim>\<open>\v\<close>, \<^verbatim>\<open>\f\<close>, \<^verbatim>\<open>\r\<close>.\<close>

definition c_isspace :: "char \<Rightarrow> bool" where
  "c_isspace c \<longleftrightarrow> c \<in> set [CHR '' '', CHR 0x09, CHR 0x0A, CHR 0x0B, CHR 0x0C, CHR 0x0D]"

text \<open>\<^verbatim>\<open>s.find(pat)\<close>: the first position at which \<open>pat\<close> occurs in \<open>s\<close>;
  \<open>None\<close> is \<^verbatim>\<open>std::string::npos\<close>.\<close>

fun str_find :: "string \<Rightarrow> string \<Rightarrow> nat option" where
  "str_find [] pat = (if pat = [] then Some 0 else None)"
| "str_find (c # cs) pat =
     (if prefix pat (c # cs) then Some 0 else map_option Suc (str_find cs pat))"

text \<open>\<^verbatim>\<open>std::regex_replace(s, std::regex("\\s+"), " ")\<close>: every maximal run of
  whitespace becomes one space.\<close>

function regex_replace_ws :: "string \<Rightarrow> string" where
  "regex_replace_ws [] = []"
| "regex_replace_ws (c # cs) =
     (if c_isspace c then CHR '' '' # regex_replace_ws (dropWhile c_isspace cs)
      else c # regex_replace_ws cs)"
  by pat_completeness auto
termination
  by (relation "measure length") (auto simp: le_imp_less_Suc length_dropWhile_le)

text \<open>\<^verbatim>\<open>std::to_string(int)\<close>: decimal digits, with a minus sign below zero.\<close>

definition digit_char :: "nat \<Rightarrow> char" where
  "digit_char d = ''0123456789'' ! (d mod 10)"

function digits_of :: "nat \<Rightarrow> string" where
  "digits_of n = (if n < 10 then [digit_char n] else digits_of (n div 10) @ [digit_char n])"
  by pat_completeness auto
termination
  by (relation "measure id") auto

definition to_string :: "int \<Rightarrow> string" where
  "to_string i = (if i < 0 then CHR ''-'' # digits_of (nat (- i)) else digits_of (nat i))"



subsection \<open>The result record (\<^verbatim>\<open>llama_wrapper.h\<close>)\<close>

record ModelConfig =
  model_path :: string
  n_ctx :: int
  n_threads :: int
  temperature :: real
  top_k :: int
  top_p :: real
  use_mmap :: bool
  use_mlock :: bool
  n_gpu_layers :: int

record ClassificationResult =
  is_productive :: bool
  confidence :: real
  reason :: string
  processing_time_ms :: int
  success :: bool
  error_message :: string

subsection \<open>\<^verbatim>\<open>content_utils::classify_with_heuristics\<close> (\<^verbatim>\<open>llama_jni.cpp\<close>)\<close>

definition unproductive_patterns :: "(string \<times> real) list" where
  "unproductive_patterns =
    [(''you won't believe'', 0.9), (''shocking'', 0.8), (''viral'', 0.7),
     (''trending'', 0.7), (''clickbait'', 0.9), (''drama'', 0.7), (''gossip'', 0.8),
     (''must see'', 0.7), (''watch this'', 0.6), (''epic fail'', 0.8), (''omg'', 0.6),
     (''wtf'', 0.7), (''insane'', 0.7), (''crazy'', 0.6)]"

definition productive_patterns :: "(string \<times> real) list" where
  "productive_patterns =
    [(''how to'', 0.9), (''tutorial'', 0.9), (''learn'', 0.8), (''education'', 0.9),
     (''guide'', 0.8), (''research'', 0.9), (''analysis'', 0.8), (''study'', 0.8),
     (''insight'', 0.8), (''explanation'', 0.8), (''understand'', 0.7),
     (''science'', 0.8), (''technology'', 0.7), (''knowledge'', 0.8)]"

text \<open>The first two statements: lower-case every character, then collapse whitespace.\<close>

definition lower_content :: "string \<Rightarrow> string" where
  "lower_content content = regex_replace_ws (map c_tolower content)"

text \<open>The two pattern loops: \<open>acc\<close> is \<^verbatim>\<open>max_unproductive_score\<close> or
  \<^verbatim>\<open>max_productive_score\<close>, started at \<open>0\<close>.\<close>

fun max_score :: "string \<Rightarrow> (string \<times> real) list \<Rightarrow> real \<Rightarrow> real" where
  "max_score hay [] acc = acc"
| "max_score hay ((pat, w) # ps) acc =
     max_score hay ps (if str_find hay pat \<noteq> None then max acc w else acc)"

text \<open>The locals \<^verbatim>\<open>(is_productive, confidence, reason)\<close> after the keyword decision
  (the \<^verbatim>\<open>if / else if / else if\<close> chain), starting from their initial values
  \<^verbatim>\<open>(true, 0.6f, "neutral_content")\<close>.\<close>

definition keyword_decision :: "string \<Rightarrow> bool \<times> real \<times> string" where
  "keyword_decision content =
    (let lowered = lower_content content;
         max_unproductive_score = max_score lowered unproductive_patterns 0;
         max_productive_score = max_score lowered productive_patterns 0
     in if max_productive_score > max_unproductive_score
          then (True, max_productive_score, ''educational_keywords'')
        else if max_unproductive_score > max_productive_score
          then (False, max_unproductive_score, ''unproductive_keywords'')
        else if max_unproductive_score > 0 \<and> max_productive_score > 0
          then (True, 0.5, ''mixed_content'')
        else (True, 0.6, ''neutral_content''))"

text \<open>The capitals loop over the original text: \<^verbatim>\<open>(caps_count, letter_count)\<close>.\<close>

fun count_caps :: "string \<Rightarrow> int \<times> int \<Rightarrow> int \<times> int" where
  "count_caps [] (caps_count, letter_count) = (caps_count, letter_count)"
| "count_caps (c # cs) (caps_count, letter_count) =
     count_caps cs
       (if c_isalpha c
        then (if c_isupper c then caps_count + 1 else caps_count, letter_count + 1)
        else (caps_count, letter_count))"

text \<open>\<^verbatim>\<open>std::count(content.begin(), content.end(), ch)\<close>.\<close>

definition std_count :: "string \<Rightarrow> char \<Rightarrow> nat" where
  "std_count s ch = length (filter (\<lambda>c. c = ch) s)"

text \<open>The two overrides, applied in sequence to the locals.\<close>

definition caps_override :: "string \<Rightarrow> bool \<times> real \<times> string \<Rightarrow> bool \<times> real \<times> string" where
  "caps_override content v =
    (case v of (is_prod, conf, rsn) \<Rightarrow>
      (case count_caps content (0, 0) of (caps_count, letter_count) \<Rightarrow>
        if letter_count > 0 \<and> real_of_int caps_count / real_of_int letter_count > 0.5
        then (False, max conf 0.7, ''excessive_caps'')
        else (is_prod, conf, rsn)))"

definition punctuation_override :: "string \<Rightarrow> bool \<times> real \<times> string \<Rightarrow> bool \<times> real \<times> string" where
  "punctuation_override content v =
    (case v of (is_prod, conf, rsn) \<Rightarrow>
      (let exclamation_count = std_count content CHR ''!'';
           question_count = std_count content CHR ''?''
       in if exclamation_count > 3 \<or> question_count > 3
          then (False, max conf 0.6, ''excessive_punctuation'')
          else (is_prod, conf, rsn)))"

text \<open>The whole function. \<open>elapsed\<close> is the measured time; \<^verbatim>\<open>error_message\<close> is the
  default-constructed empty string.\<close>

definition classify_with_heuristics :: "int \<Rightarrow> string \<Rightarrow> ClassificationResult" where
  "classify_with_heuristics elapsed content =
    (case punctuation_override content (caps_override content (keyword_decision content)) of
      (is_prod, conf, rsn) \<Rightarrow>
        \<lparr>is_productive = is_prod, confidence = conf, reason = rsn,
         processing_time_ms = elapsed, success = True, error_message = []\<rparr>)"

subsection \<open>\<^verbatim>\<open>content_utils::prepare_content_for_analysis\<close> (\<^verbatim>\<open>llama_jni.cpp\<close>)\<close>






subsection \<open>\<^verbatim>\<open>LlamaWrapper::Impl\<close>, fallback build (\<^verbatim>\<open>llama_jni.cpp\<close>)\<close>

text \<open>A file system as the code sees it: a path names at most one file, which has
  contents and may or may not be readable; \<open>can_write\<close> says whether
  \<^verbatim>\<open>std::ofstream\<close> can open the path for writing.\<close>

record file_entry =
  readable :: bool
  bytes :: string

record filesystem =
  files :: "string \<Rightarrow> file_entry option"
  can_write :: "string \<Rightarrow> bool"

text \<open>\<^verbatim>\<open>std::ifstream file(path)\<close>: the stream is good (open) exactly when the file
  exists and is readable; the value is the contents that can then be read.\<close>

definition ifstream_open :: "filesystem \<Rightarrow> string \<Rightarrow> string option" where
  "ifstream_open fs path =
     (case files fs path of
        None \<Rightarrow> None
      | Some f \<Rightarrow> if readable f then Some (bytes f) else None)"

text \<open>The members \<^verbatim>\<open>model_loaded_\<close>, \<^verbatim>\<open>llama_available_\<close> and
  \<^verbatim>\<open>model_config_\<close> (the trailing underscores dropped).\<close>

record Impl =
  model_loaded :: bool
  llama_available :: bool
  model_config :: ModelConfig

definition default_ModelConfig :: ModelConfig where
  "default_ModelConfig =
     \<lparr>model_path = [], n_ctx = 2048, n_threads = 4, temperature = 0.1, top_k = 1,
      top_p = 0.1, use_mmap = True, use_mlock = False, n_gpu_layers = 0\<rparr>"

definition Impl_new :: Impl where
  "Impl_new = \<lparr>model_loaded = False, llama_available = False,
               model_config = default_ModelConfig\<rparr>"

definition load_model :: "filesystem \<Rightarrow> Impl \<Rightarrow> ModelConfig \<Rightarrow> bool \<times> Impl" where
  "load_model fs st config =
     (let st1 = st\<lparr>model_config := config\<rparr>
      in case ifstream_open fs (model_path config) of
           None \<Rightarrow> (False, st1)
         | Some contents \<Rightarrow> (True, st1\<lparr>model_loaded := True\<rparr>))"

definition is_model_loaded :: "Impl \<Rightarrow> bool" where
  "is_model_loaded st = model_loaded st"

definition unload_model :: "Impl \<Rightarrow> Impl" where
  "unload_model st = (if model_loaded st then st\<lparr>model_loaded := False\<rparr> else st)"

text \<open>\<^verbatim>\<open>classify_content\<close>. The local \<^verbatim>\<open>ClassificationResult result;\<close> is
  default-initialised: its two strings are empty and its scalar members hold whatever
  the memory held, here the members of the parameter \<open>uninit\<close>. \<open>inner_ms\<close> and
  \<open>outer_ms\<close> are the times measured inside the heuristic and around the call.\<close>

definition classify_content ::
    "Impl \<Rightarrow> ClassificationResult \<Rightarrow> int \<Rightarrow> int \<Rightarrow> string \<Rightarrow> string \<Rightarrow> ClassificationResult" where
  "classify_content st uninit inner_ms outer_ms content context =
     (let result = uninit\<lparr>reason := [], error_message := [], success := False\<rparr>
      in if \<not> model_loaded st then result\<lparr>error_message := ''Model not loaded''\<rparr>
         else if content = [] then result\<lparr>error_message := ''Empty content''\<rparr>
         else (classify_with_heuristics inner_ms content)\<lparr>processing_time_ms := outer_ms\<rparr>)"

subsection \<open>\<^verbatim>\<open>ContentClassifier\<close> (\<^verbatim>\<open>content_classifier.cpp\<close>)\<close>

datatype ContentCategory = NEWS | ENTERTAINMENT | EDUCATIONAL | SOCIAL | COMMERCIAL | UNKNOWN

record ClassificationContext =
  app_package :: string
  category :: ContentCategory
  language :: string
  content_length :: int

definition news_keywords :: "string list" where
  "news_keywords = [''breaking'', ''news'', ''report'', ''according to'', ''sources say'',
                    ''announcement'', ''official'', ''statement'', ''update'']"

definition educational_keywords :: "string list" where
  "educational_keywords = [''learn'', ''tutorial'', ''how to'', ''guide'', ''explanation'',
                           ''research'', ''study'', ''analysis'', ''science'', ''education'']"

definition entertainment_keywords :: "string list" where
  "entertainment_keywords = [''funny'', ''hilarious'', ''meme'', ''viral'', ''trending'',
                             ''celebrity'', ''movie'', ''music'', ''game'', ''fun'']"

definition commercial_keywords :: "string list" where
  "commercial_keywords = [''buy'', ''sale'', ''discount'', ''offer'', ''deal'', ''price'',
                          ''product'', ''review'', ''sponsored'', ''ad'']"

text \<open>The loop of \<^verbatim>\<open>count_keywords\<close>, with its counter as accumulator.\<close>

fun count_loop :: "string \<Rightarrow> string list \<Rightarrow> int \<Rightarrow> int" where
  "count_loop content [] count = count"
| "count_loop content (keyword # keywords) count =
     count_loop content keywords
       (if str_find content keyword \<noteq> None then count + 1 else count)"

definition count_keywords :: "string \<Rightarrow> string list \<Rightarrow> int" where
  "count_keywords content keywords = count_loop content keywords 0"

definition determine_category :: "string \<Rightarrow> ContentCategory" where
  "determine_category content =
     (let lower = map c_tolower content;
          news_score = count_keywords lower news_keywords;
          educational_score = count_keywords lower educational_keywords;
          entertainment_score = count_keywords lower entertainment_keywords;
          commercial_score = count_keywords lower commercial_keywords;
          max_score = max (max (max news_score educational_score) entertainment_score)
                          commercial_score
      in if max_score = 0 then UNKNOWN
         else if max_score = news_score then NEWS
         else if max_score = educational_score then EDUCATIONAL
         else if max_score = entertainment_score then ENTERTAINMENT
         else if max_score = commercial_score then COMMERCIAL
         else SOCIAL)"

definition apply_context_adjustments ::
    "ClassificationResult \<Rightarrow> ClassificationContext \<Rightarrow> ClassificationResult" where
  "apply_context_adjustments result context =
     (let r1 =
        (if str_find (app_package context) ''linkedin'' \<noteq> None then
           (if is_productive result
            then result\<lparr>confidence := min 1.0 (confidence result + 0.2),
                        reason := reason result @ ''_linkedin_boost''\<rparr>
            else result)
         else if str_find (app_package context) ''tiktok'' \<noteq> None then
           (if \<not> is_productive result
            then result\<lparr>confidence := min 1.0 (confidence result + 0.1),
                        reason := reason result @ ''_tiktok_penalty''\<rparr>
            else result)
         else result);
          r2 =
        (case category context of
           EDUCATIONAL \<Rightarrow>
             (if is_productive r1
              then r1\<lparr>confidence := min 1.0 (confidence r1 + 0.15),
                      reason := reason r1 @ ''_educational_boost''\<rparr>
              else r1)
         | ENTERTAINMENT \<Rightarrow>
             (if \<not> is_productive r1
              then r1\<lparr>confidence := min 1.0 (confidence r1 + 0.1),
                      reason := reason r1 @ ''_entertainment_penalty''\<rparr>
              else r1)
         | NEWS \<Rightarrow> r1
         | COMMERCIAL \<Rightarrow>
             (if \<not> is_productive r1
              then r1\<lparr>confidence := min 1.0 (confidence r1 + 0.2),
                      reason := reason r1 @ ''_commercial_penalty''\<rparr>
              else r1)
         | SOCIAL \<Rightarrow> r1
         | UNKNOWN \<Rightarrow> r1)
      in if content_length context < 50 then
           r2\<lparr>confidence := confidence r2 * 0.8, reason := reason r2 @ ''_short_content''\<rparr>
         else if content_length context > 500 then
           (if is_productive r2
            then r2\<lparr>confidence := min 1.0 (confidence r2 + 0.1),
                    reason := reason r2 @ ''_long_content_boost''\<rparr>
            else r2)
         else r2)"

definition classify_with_context ::
    "int \<Rightarrow> string \<Rightarrow> ClassificationContext \<Rightarrow> ClassificationResult" where
  "classify_with_context elapsed content context =
     apply_context_adjustments (classify_with_heuristics elapsed content) context"

definition classify_content_with_context ::
    "int \<Rightarrow> string \<Rightarrow> string \<Rightarrow> string \<Rightarrow> ClassificationResult" where
  "classify_content_with_context elapsed content app context_info =
     classify_with_context elapsed content
       \<lparr>app_package = app, category = determine_category content, language = ''en'',
        content_length = int (length content)\<rparr>"

subsection \<open>\<^verbatim>\<open>ModelLoader\<close> (\<^verbatim>\<open>model_loader.cpp\<close>)\<close>

datatype LoadStatus = NOT_STARTED | DOWNLOADING | VALIDATING | LOADING | LOADED | ERROR

text \<open>The member \<^verbatim>\<open>error_message\<close> of \<^verbatim>\<open>LoadProgress\<close> is
  \<open>progress_error_message\<close> here, the other name being taken by the result record.\<close>

record LoadProgress =
  status :: LoadStatus
  progress :: real
  message :: string
  progress_error_message :: string

record ModelInfo =
  name :: string
  url :: string
  filename :: string
  size_bytes :: nat
  checksum :: string
  description :: string

definition validate_model_file :: "filesystem \<Rightarrow> string \<Rightarrow> bool" where
  "validate_model_file fs filepath =
     (case ifstream_open fs filepath of
        None \<Rightarrow> False
      | Some contents \<Rightarrow>
          (let file_size = length contents
           in if file_size < 1024 then False
              else (let magic = take 4 contents
                    in if magic \<noteq> ''GGUF'' then False else True)))"

text \<open>\<^verbatim>\<open>create_placeholder_model\<close> writes the magic and 1024 zero bytes. A file that
  existed keeps its permissions; a new one is readable by its creator.\<close>

definition create_placeholder_model :: "filesystem \<Rightarrow> string \<Rightarrow> bool \<times> filesystem" where
  "create_placeholder_model fs filepath =
     (if \<not> can_write fs filepath then (False, fs)
      else (True,
            fs\<lparr>files := (files fs)(filepath \<mapsto>
                 \<lparr>readable = (case files fs filepath of None \<Rightarrow> True | Some f \<Rightarrow> readable f),
                  bytes = ''GGUF'' @ replicate 1024 (CHR 0x00)\<rparr>)\<rparr>))"

text \<open>The callback is any function of the event and the caller's state, or absent
  (\<^verbatim>\<open>nullptr\<close>); \<open>notify\<close> is \<^verbatim>\<open>if (progress_callback) progress_callback(p)\<close>.\<close>

definition notify :: "(LoadProgress \<Rightarrow> 's \<Rightarrow> 's) option \<Rightarrow> LoadProgress \<Rightarrow> 's \<Rightarrow> 's" where
  "notify progress_callback p s = (case progress_callback of None \<Rightarrow> s | Some f \<Rightarrow> f p s)"

definition start_event :: LoadProgress where
  "start_event = \<lparr>status = DOWNLOADING, progress = 0.0, message = ''Starting download...'',
                  progress_error_message = []\<rparr>"

definition step_event :: "int \<Rightarrow> LoadProgress" where
  "step_event i = \<lparr>status = DOWNLOADING, progress = real_of_int i / 100.0,
                   message = ''Downloading... '' @ to_string i @ ''%'',
                   progress_error_message = []\<rparr>"

definition final_event :: "bool \<Rightarrow> LoadProgress" where
  "final_event ok = \<lparr>status = (if ok then LOADED else ERROR), progress = 1.0,
                     message = (if ok then ''Download completed'' else ''Download failed''),
                     progress_error_message =
                       (if \<not> ok then ''Failed to create model file'' else [])\<rparr>"

text \<open>\<^verbatim>\<open>for (int i = 0; i <= 100; i += 10)\<close>.\<close>

function download_loop :: "(LoadProgress \<Rightarrow> 's \<Rightarrow> 's) option \<Rightarrow> int \<Rightarrow> 's \<Rightarrow> 's" where
  "download_loop progress_callback i s =
     (if i \<le> 100
      then download_loop progress_callback (i + 10) (notify progress_callback (step_event i) s)
      else s)"
  by pat_completeness auto
termination
  by (relation "measure (\<lambda>(cb, i, s). nat (110 - i))") auto

text \<open>The body of the asynchronous task: the returned flag, the file system and the
  caller's state after the run.\<close>

definition download_model_async ::
    "filesystem \<Rightarrow> ModelInfo \<Rightarrow> string \<Rightarrow> (LoadProgress \<Rightarrow> 's \<Rightarrow> 's) option \<Rightarrow> 's
       \<Rightarrow> bool \<times> filesystem \<times> 's" where
  "download_model_async fs model_info target_path progress_callback s =
     (let s1 = notify progress_callback start_event s;
          s2 = download_loop progress_callback 0 s1
      in case create_placeholder_model fs target_path of
           (ok, fs') \<Rightarrow> (ok, fs', notify progress_callback (final_event ok) s2))"

text \<open>The callback that records what it is given, in order.\<close>

definition record_event :: "LoadProgress \<Rightarrow> LoadProgress list \<Rightarrow> LoadProgress list" where
  "record_event p es = es @ [p]"

definition delivered :: "filesystem \<Rightarrow> ModelInfo \<Rightarrow> string \<Rightarrow> LoadProgress list" where
  "delivered fs model_info target_path =
     snd (snd (download_model_async fs model_info target_path (Some record_event) []))"

subsection \<open>Notions of the specification\<close>

text \<open>The weights of the phrases of a table that occur in a text, and the score the
  specification assigns to the table: the largest of them, \<open>0\<close> when there is none.\<close>

definition matching_weights :: "(string \<times> real) list \<Rightarrow> string \<Rightarrow> real set" where
  "matching_weights tbl hay = {w. \<exists>p. (p, w) \<in> set tbl \<and> sublist p hay}"

definition table_maximum :: "(string \<times> real) list \<Rightarrow> string \<Rightarrow> real" where
  "table_maximum tbl hay =
     (if matching_weights tbl hay = {} then 0 else Max (matching_weights tbl hay))"

text \<open>The normalization in the words of the specification: every character is
  lower-cased and every run of consecutive whitespace characters becomes a single
  blank. The text is read once, left to right; the flag says that the character before
  was whitespace.\<close>

fun collapse_runs :: "bool \<Rightarrow> string \<Rightarrow> string" where
  "collapse_runs in_run [] = []"
| "collapse_runs in_run (c # cs) =
     (if c_isspace c
      then (if in_run then collapse_runs True cs else CHR '' '' # collapse_runs True cs)
      else c # collapse_runs False cs)"

definition spec_normalized_text :: "string \<Rightarrow> string" where
  "spec_normalized_text content = collapse_runs False (map c_tolower content)"

text \<open>The fraction of the alphabetic characters that are upper-case exceeds one half;
  one of the two punctuation counts exceeds 3.\<close>

definition excessive_caps :: "string \<Rightarrow> bool" where
  "excessive_caps content \<longleftrightarrow>
     filter c_isalpha content \<noteq> [] \<and>
     real (length (filter c_isupper content)) / real (length (filter c_isalpha content)) > 1 / 2"

definition excessive_punctuation :: "string \<Rightarrow> bool" where
  "excessive_punctuation content \<longleftrightarrow>
     count_list content CHR ''!'' > 3 \<or> count_list content CHR ''?'' > 3"

text \<open>The verdict triple a result carries.\<close>

definition verdict :: "ClassificationResult \<Rightarrow> bool \<times> real \<times> string" where
  "verdict r = (is_productive r, confidence r, reason r)"

subsection \<open>Example inputs\<close>

text \<open>Some scalar values left behind in memory, for the default-initialised result.\<close>

definition stale_result :: ClassificationResult where
  "stale_result = \<lparr>is_productive = True, confidence = 0.25, reason = ''old'',
                    processing_time_ms = 7, success = True, error_message = ''old''\<rparr>"

definition loaded_impl :: Impl where
  "loaded_impl = Impl_new\<lparr>model_loaded := True\<rparr>"

text \<open>A text whose two words are separated by a tab and a newline.\<close>

definition tab_newline_text :: string where
  "tab_newline_text = ''You MUST'' @ [CHR 0x09, CHR 0x0A] @ ''See it''"

text \<open>A file system with one readable file at \<open>m.gguf\<close>, of the given contents.\<close>

definition single_file_fs :: "string \<Rightarrow> filesystem" where
  "single_file_fs contents =
     \<lparr>files = (\<lambda>p. if p = ''m.gguf'' then Some \<lparr>readable = True, bytes = contents\<rparr> else None),
      can_write = (\<lambda>p. p = ''m.gguf'')\<rparr>"

definition gguf_config :: ModelConfig where
  "gguf_config = default_ModelConfig\<lparr>model_path := ''m.gguf''\<rparr>"

definition missing_config :: ModelConfig where
  "missing_config = default_ModelConfig\<lparr>model_path := ''absent.gguf''\<rparr>"

text \<open>The file is there, can be read and holds at least one byte.\<close>

definition nonempty_readable :: "filesystem \<Rightarrow> string \<Rightarrow> bool" where
  "nonempty_readable fs path =
     (case files fs path of None \<Rightarrow> False | Some f \<Rightarrow> readable f \<and> bytes f \<noteq> [])"



text \<open>Two model files: 500 and 1025 bytes, both starting with the magic.\<close>

definition small_gguf :: string where
  "small_gguf = ''GGUF'' @ replicate 496 (CHR 0x00)"

definition valid_gguf :: string where
  "valid_gguf = ''GGUF'' @ replicate 1021 (CHR 0x00)"

text \<open>The rules of the context adjustment as the specification lists them. An additive
  rule raises the confidence by an amount, clamps it at \<open>1\<close> and appends its tag.\<close>

definition boost :: "real \<Rightarrow> string \<Rightarrow> ClassificationResult \<Rightarrow> ClassificationResult" where
  "boost amount tag r =
     r\<lparr>confidence := min 1 (confidence r + amount), reason := reason r @ tag\<rparr>"

definition app_rule :: "ClassificationContext \<Rightarrow> ClassificationResult \<Rightarrow> ClassificationResult" where
  "app_rule ctx r =
     (if sublist ''linkedin'' (app_package ctx)
      then (if is_productive r then boost 0.2 ''_linkedin_boost'' r else r)
      else if sublist ''tiktok'' (app_package ctx)
      then (if is_productive r then r else boost 0.1 ''_tiktok_penalty'' r)
      else r)"

definition category_rule :: "ClassificationContext \<Rightarrow> ClassificationResult \<Rightarrow> ClassificationResult" where
  "category_rule ctx r =
     (if category ctx = EDUCATIONAL \<and> is_productive r then boost 0.15 ''_educational_boost'' r
      else if category ctx = ENTERTAINMENT \<and> \<not> is_productive r
        then boost 0.1 ''_entertainment_penalty'' r
      else if category ctx = COMMERCIAL \<and> \<not> is_productive r
        then boost 0.2 ''_commercial_penalty'' r
      else r)"

definition length_rule :: "ClassificationContext \<Rightarrow> ClassificationResult \<Rightarrow> ClassificationResult" where
  "length_rule ctx r =
     (if content_length ctx < 50
      then r\<lparr>confidence := confidence r * 0.8, reason := reason r @ ''_short_content''\<rparr>
      else if content_length ctx > 500 \<and> is_productive r
        then boost 0.1 ''_long_content_boost'' r
      else r)"

text \<open>A productive base result of confidence \<open>0.5\<close> and one of \<open>0.9\<close>; an Educational
  context of medium length from an application without hint, and one from the
  professional network with long content.\<close>

definition base_half :: ClassificationResult where
  "base_half = \<lparr>is_productive = True, confidence = 0.5, reason = ''mixed_content'',
                 processing_time_ms = 3, success = True, error_message = []\<rparr>"

definition base_high :: ClassificationResult where
  "base_high = \<lparr>is_productive = True, confidence = 0.9, reason = ''educational_keywords'',
                 processing_time_ms = 3, success = True, error_message = []\<rparr>"

definition educational_context :: ClassificationContext where
  "educational_context = \<lparr>app_package = ''com.example.reader'', category = EDUCATIONAL,
                           language = ''en'', content_length = 120\<rparr>"

definition linkedin_context :: ClassificationContext where
  "linkedin_context = \<lparr>app_package = ''com.linkedin.android'', category = EDUCATIONAL,
                        language = ''en'', content_length = 600\<rparr>"

text \<open>The first entry of the catalogue (\<^verbatim>\<open>get_default_model\<close> of \<^verbatim>\<open>model_loader.cpp\<close>).\<close>

definition get_default_model :: ModelInfo where
  "get_default_model =
     \<lparr>name = ''gemma-270m-q4'',
      url = ''https://huggingface.co/unsloth/gemma-3-270m-it-GGUF/resolve/main/gemma-3-270m-it-Q4_K_M.gguf'',
      filename = ''gemma-3-270m-it-Q4_K_M.gguf'',
      size_bytes = 150 * 1024 * 1024,
      checksum = [],
      description = ''Gemma 3 270M - Optimized for mobile inference''\<rparr>"

text \<open>The values of \<open>i\<close> in the download loop.\<close>

definition loop_steps :: "int list" where
  "loop_steps = [0, 10, 20, 30, 40, 50, 60, 70, 80, 90, 100]"

section \<open>Properties\<close>

subsection \<open>Substring search and the pattern loops\<close>

lemma str_find_iff_sublist: "str_find s pat \<noteq> None \<longleftrightarrow> sublist pat s"
  by (induction s) (auto simp: sublist_Cons_right)

lemma finite_matching_weights: "finite (matching_weights tbl hay)"
  unfolding matching_weights_def
  by (rule finite_subset[of _ "snd ` set tbl"]) force+

lemma matching_weights_Nil: "matching_weights [] hay = {}"
  by (simp add: matching_weights_def)

lemma matching_weights_Cons:
  "matching_weights ((p, w) # tbl) hay =
     (if sublist p hay then insert w (matching_weights tbl hay) else matching_weights tbl hay)"
  by (auto simp: matching_weights_def)

lemma Max_insert_max:
  assumes "finite S"
  shows "Max (insert (max a b) S) = Max (insert a (insert b S))"
proof (cases "S = {}")
  case True
  then show ?thesis by (simp add: max.commute)
next
  case False
  with assms show ?thesis by (simp add: max.assoc)
qed

text \<open>The loop computes the maximum of its start value and the matching weights.\<close>

lemma max_score_Max:
  "max_score hay tbl acc = Max (insert acc (matching_weights tbl hay))"
proof (induction tbl arbitrary: acc)
  case Nil
  then show ?case by (simp add: matching_weights_Nil)
next
  case (Cons pw tbl)
  obtain p w where pw: "pw = (p, w)" by (cases pw)
  show ?case
  proof (cases "sublist p hay")
    case True
    have "max_score hay (pw # tbl) acc = max_score hay tbl (max acc w)"
      using True by (simp add: pw str_find_iff_sublist del: not_None_eq)
    also have "\<dots> = Max (insert (max acc w) (matching_weights tbl hay))"
      by (rule Cons.IH)
    also have "\<dots> = Max (insert acc (insert w (matching_weights tbl hay)))"
      by (rule Max_insert_max) (rule finite_matching_weights)
    finally show ?thesis using True by (simp add: pw matching_weights_Cons)
  next
    case False
    have "max_score hay (pw # tbl) acc = max_score hay tbl acc"
      using False by (simp add: pw str_find_iff_sublist del: not_None_eq)
    then show ?thesis using False by (simp add: pw matching_weights_Cons Cons.IH)
  qed
qed

lemma max_score_table_maximum:
  assumes "\<forall>w \<in> snd ` set tbl. 0 \<le> w"
  shows "max_score hay tbl 0 = table_maximum tbl hay"
proof (cases "matching_weights tbl hay = {}")
  case True
  then show ?thesis by (simp add: max_score_Max table_maximum_def)
next
  case False
  have "\<forall>w \<in> matching_weights tbl hay. 0 \<le> w"
    using assms by (force simp: matching_weights_def)
  then have "0 \<le> Max (matching_weights tbl hay)"
    using False finite_matching_weights[of tbl hay]
    by (meson Max_in)
  then show ?thesis using False finite_matching_weights[of tbl hay]
    by (simp add: max_score_Max table_maximum_def)
qed

lemma max_score_range:
  assumes "\<forall>w \<in> snd ` set tbl. lo \<le> w \<and> w \<le> hi"
      and "acc = 0 \<or> (lo \<le> acc \<and> acc \<le> hi)"
  shows "max_score hay tbl acc = 0 \<or> (lo \<le> max_score hay tbl acc \<and> max_score hay tbl acc \<le> hi)"
  using assms
proof (induction tbl arbitrary: acc)
  case Nil
  then show ?case by simp
next
  case (Cons pw tbl)
  obtain p w where pw: "pw = (p, w)" by (cases pw)
  have w: "lo \<le> w" "w \<le> hi" using Cons.prems(1) by (simp_all add: pw)
  have tl: "\<forall>w \<in> snd ` set tbl. lo \<le> w \<and> w \<le> hi" using Cons.prems(1) by simp
  let ?acc = "if str_find hay p \<noteq> None then max acc w else acc"
  have "?acc = 0 \<or> (lo \<le> ?acc \<and> ?acc \<le> hi)"
    using Cons.prems(2) w by (auto simp: max_def)
  from Cons.IH[OF tl this] show ?case by (simp add: pw)
qed

lemma unproductive_weights: "\<forall>w \<in> snd ` set unproductive_patterns. 0.6 \<le> w \<and> w \<le> 0.9"
  by (simp add: unproductive_patterns_def)

lemma productive_weights: "\<forall>w \<in> snd ` set productive_patterns. 0.6 \<le> w \<and> w \<le> 0.9"
  by (simp add: productive_patterns_def)

subsection \<open>The confidence of the heuristic classifier\<close>

lemma keyword_decision_range:
  "0.5 \<le> fst (snd (keyword_decision content)) \<and> fst (snd (keyword_decision content)) \<le> 0.9"
proof -
  let ?u = "max_score (lower_content content) unproductive_patterns 0"
  let ?p = "max_score (lower_content content) productive_patterns 0"
  have u: "?u = 0 \<or> (0.6 \<le> ?u \<and> ?u \<le> 0.9)"
    by (rule max_score_range[OF unproductive_weights]) simp
  have p: "?p = 0 \<or> (0.6 \<le> ?p \<and> ?p \<le> 0.9)"
    by (rule max_score_range[OF productive_weights]) simp
  show ?thesis
    using u p by (auto simp: keyword_decision_def Let_def)
qed

lemma caps_override_range:
  assumes "0.5 \<le> fst (snd v) \<and> fst (snd v) \<le> 0.9"
  shows "0.5 \<le> fst (snd (caps_override content v)) \<and> fst (snd (caps_override content v)) \<le> 0.9"
  using assms by (cases v) (auto simp: caps_override_def split: prod.splits)

lemma punctuation_override_range:
  assumes "0.5 \<le> fst (snd v) \<and> fst (snd v) \<le> 0.9"
  shows "0.5 \<le> fst (snd (punctuation_override content v))
       \<and> fst (snd (punctuation_override content v)) \<le> 0.9"
  using assms by (cases v) (auto simp: punctuation_override_def Let_def)

lemma confidence_classify_with_heuristics:
  "confidence (classify_with_heuristics elapsed content) =
     fst (snd (punctuation_override content (caps_override content (keyword_decision content))))"
  by (simp add: classify_with_heuristics_def split: prod.splits)

text \<open>
  Claim C10. For every input string, the empty one included, \<open>classify_with_heuristics\<close>
  returns a result with \<open>success\<close> set, an empty error message and a confidence between
  \<open>0.5\<close> and \<open>0.9\<close>. It has no failure path: on the empty string it still succeeds,
  whereas \<open>classify_content\<close> of a loaded wrapper rejects the empty string.
\<close>

theorem classify_with_heuristics_succeeds_in_range:
  "success (classify_with_heuristics elapsed content)
   \<and> 0.5 \<le> confidence (classify_with_heuristics elapsed content)
   \<and> confidence (classify_with_heuristics elapsed content) \<le> 0.9
   \<and> error_message (classify_with_heuristics elapsed content) = []
   \<and> success (classify_with_heuristics elapsed [])
   \<and> \<not> success (classify_content (Impl_new\<lparr>model_loaded := True\<rparr>) uninit inner_ms outer_ms [] context)"
proof -
  have s: "success (classify_with_heuristics e c)"
    and m: "error_message (classify_with_heuristics e c) = []" for e c
    by (simp_all add: classify_with_heuristics_def split: prod.splits)
  have r: "0.5 \<le> confidence (classify_with_heuristics elapsed content)
         \<and> confidence (classify_with_heuristics elapsed content) \<le> 0.9"
    unfolding confidence_classify_with_heuristics
    by (intro punctuation_override_range caps_override_range keyword_decision_range)
  have w: "\<not> success (classify_content (Impl_new\<lparr>model_loaded := True\<rparr>) uninit inner_ms outer_ms [] context)"
    by (simp add: classify_content_def)
  show ?thesis using s m r w by blast
qed

subsection \<open>The keyword decision\<close>

lemma table_maximum_productive:
  "max_score hay productive_patterns 0 = table_maximum productive_patterns hay"
  using productive_weights by (intro max_score_table_maximum) force

lemma table_maximum_unproductive:
  "max_score hay unproductive_patterns 0 = table_maximum unproductive_patterns hay"
  using unproductive_weights by (intro max_score_table_maximum) force

lemma table_maximum_in:
  assumes "matching_weights tbl hay \<noteq> {}"
  shows "table_maximum tbl hay \<in> snd ` set tbl"
proof -
  have "Max (matching_weights tbl hay) \<in> matching_weights tbl hay"
    using assms finite_matching_weights by (rule_tac Max_in) auto
  then show ?thesis using assms by (force simp: table_maximum_def matching_weights_def)
qed

lemma table_maximum_empty: "matching_weights tbl hay = {} \<Longrightarrow> table_maximum tbl hay = 0"
  by (simp add: table_maximum_def)

lemma table_maximum_ge:
  assumes "(p, w) \<in> set tbl" "sublist p hay"
  shows "w \<le> table_maximum tbl hay"
proof -
  have "w \<in> matching_weights tbl hay" using assms by (auto simp: matching_weights_def)
  then show ?thesis using finite_matching_weights[of tbl hay]
    by (auto simp: table_maximum_def)
qed

lemma productive_maximum_pos:
  "matching_weights productive_patterns hay \<noteq> {} \<Longrightarrow>
     0.6 \<le> table_maximum productive_patterns hay \<and> table_maximum productive_patterns hay \<le> 0.9"
  using table_maximum_in[of productive_patterns hay] productive_weights by blast

lemma unproductive_maximum_pos:
  "matching_weights unproductive_patterns hay \<noteq> {} \<Longrightarrow>
     0.6 \<le> table_maximum unproductive_patterns hay \<and> table_maximum unproductive_patterns hay \<le> 0.9"
  using table_maximum_in[of unproductive_patterns hay] unproductive_weights by blast

lemma keyword_decision_maxima:
  "keyword_decision content =
    (let P = table_maximum productive_patterns (lower_content content);
         U = table_maximum unproductive_patterns (lower_content content)
     in if U < P then (True, P, ''educational_keywords'')
        else if P < U then (False, U, ''unproductive_keywords'')
        else if 0 < U \<and> 0 < P then (True, 0.5, ''mixed_content'')
        else (True, 0.6, ''neutral_content''))"
  by (simp add: keyword_decision_def Let_def table_maximum_productive table_maximum_unproductive)

lemma count_caps_eq:
  "count_caps s (a, b) =
     (a + int (length (filter c_isupper s)), b + int (length (filter c_isalpha s)))"
  by (induction s arbitrary: a b) (auto simp: c_isupper_def c_isalpha_def)

lemma caps_override_eq:
  "caps_override content v =
     (if excessive_caps content then (False, max (fst (snd v)) 0.7, ''excessive_caps'') else v)"
  by (cases v) (auto simp: caps_override_def count_caps_eq excessive_caps_def)

lemma std_count_eq: "std_count s ch = count_list s ch"
  by (induction s) (auto simp: std_count_def)

lemma punctuation_override_eq:
  "punctuation_override content v =
     (if excessive_punctuation content
      then (False, max (fst (snd v)) 0.6, ''excessive_punctuation'') else v)"
  by (cases v) (auto simp: punctuation_override_def std_count_eq excessive_punctuation_def Let_def)

lemma verdict_classify_with_heuristics:
  "verdict (classify_with_heuristics elapsed content) =
     punctuation_override content (caps_override content (keyword_decision content))"
  by (simp add: classify_with_heuristics_def verdict_def split: prod.splits)

text \<open>The normalization the code performs (\<^verbatim>\<open>tolower\<close>, then the replacement of
  \<^verbatim>\<open>\s+\<close> by a blank) is the one of the specification.\<close>

lemma collapse_runs_in_run:
  "collapse_runs True s = collapse_runs False (dropWhile c_isspace s)"
  by (induction s) simp_all

lemma regex_replace_ws_collapse_runs: "regex_replace_ws s = collapse_runs False s"
proof (induction s rule: regex_replace_ws.induct)
  case 1
  then show ?case by simp
next
  case (2 c cs)
  show ?case
  proof (cases "c_isspace c")
    case True
    then show ?thesis using 2(1) by (simp add: collapse_runs_in_run)
  next
    case False
    then show ?thesis using 2(2) by simp
  qed
qed

lemma lower_content_spec: "lower_content content = spec_normalized_text content"
  by (simp add: lower_content_def spec_normalized_text_def regex_replace_ws_collapse_runs)

text \<open>
  Claim C1. The normalized text is the input with every character lower-cased and every
  run of whitespace collapsed to one blank. Write \<open>P\<close> and \<open>U\<close> for the maxima of the
  weights of the productive and of the unproductive phrases that occur as substrings
  of the normalized text (\<open>0\<close> when none occurs). The keyword decision is: productive
  with confidence \<open>P\<close> and reason \<open>educational_keywords\<close> when \<open>P > U\<close>; unproductive with
  confidence \<open>U\<close> and reason \<open>unproductive_keywords\<close> when \<open>U > P\<close>; productive with
  confidence \<open>0.5\<close> and reason \<open>mixed_content\<close> when both are equal and positive;
  productive with confidence \<open>0.6\<close> and reason \<open>neutral_content\<close> when no phrase of
  either table matches; and these four cases are all there are. A text that contains
  \<open>tutorial\<close> and no unproductive phrase is decided productive, \<open>0.9\<close>,
  \<open>educational_keywords\<close>. The returned result carries the keyword decision whenever
  neither surface override fires, and on the text \<open>tutorial\<close> it is productive with
  confidence \<open>0.9\<close> and reason \<open>educational_keywords\<close>.
\<close>

theorem keyword_decision_by_table_maxima:
  "(let lowered = spec_normalized_text content;
        P = table_maximum productive_patterns lowered;
        U = table_maximum unproductive_patterns lowered;
        unmatched = (matching_weights productive_patterns lowered = {}
                     \<and> matching_weights unproductive_patterns lowered = {})
    in (U < P \<longrightarrow> keyword_decision content = (True, P, ''educational_keywords''))
     \<and> (P < U \<longrightarrow> keyword_decision content = (False, U, ''unproductive_keywords''))
     \<and> (P = U \<and> 0 < P \<longrightarrow> keyword_decision content = (True, 0.5, ''mixed_content''))
     \<and> (unmatched \<longrightarrow> keyword_decision content = (True, 0.6, ''neutral_content''))
     \<and> (U < P \<or> P < U \<or> (P = U \<and> 0 < P) \<or> unmatched)
     \<and> (sublist ''tutorial'' lowered \<and> matching_weights unproductive_patterns lowered = {}
          \<longrightarrow> keyword_decision content = (True, 0.9, ''educational_keywords'')))
   \<and> (\<not> excessive_caps content \<and> \<not> excessive_punctuation content
        \<longrightarrow> verdict (classify_with_heuristics elapsed content) = keyword_decision content)
   \<and> classify_with_heuristics elapsed ''tutorial'' =
        \<lparr>is_productive = True, confidence = 0.9, reason = ''educational_keywords'',
         processing_time_ms = elapsed, success = True, error_message = []\<rparr>"
proof -
  let ?l = "spec_normalized_text content"
  let ?P = "table_maximum productive_patterns ?l"
  let ?U = "table_maximum unproductive_patterns ?l"
  let ?none = "matching_weights productive_patterns ?l = {}
                 \<and> matching_weights unproductive_patterns ?l = {}"
  have c1: "?U < ?P \<longrightarrow> keyword_decision content = (True, ?P, ''educational_keywords'')"
    by (simp add: keyword_decision_maxima Let_def lower_content_spec)
  have c2: "?P < ?U \<longrightarrow> keyword_decision content = (False, ?U, ''unproductive_keywords'')"
    by (simp add: keyword_decision_maxima Let_def lower_content_spec)
  have c3: "?P = ?U \<and> 0 < ?P \<longrightarrow> keyword_decision content = (True, 0.5, ''mixed_content'')"
    by (simp add: keyword_decision_maxima Let_def lower_content_spec)
  have c4: "?none \<longrightarrow> keyword_decision content = (True, 0.6, ''neutral_content'')"
    by (simp add: keyword_decision_maxima Let_def lower_content_spec table_maximum_empty)
  have c5: "?U < ?P \<or> ?P < ?U \<or> (?P = ?U \<and> 0 < ?P) \<or> ?none"
  proof (cases "?none")
    case True
    then show ?thesis by blast
  next
    case False
    then have "0 < ?P \<or> 0 < ?U"
      using productive_maximum_pos[of ?l] unproductive_maximum_pos[of ?l] by force
    then show ?thesis by argo
  qed
  have c6: "sublist ''tutorial'' ?l \<and> matching_weights unproductive_patterns ?l = {}
          \<longrightarrow> keyword_decision content = (True, 0.9, ''educational_keywords'')"
  proof (intro impI, elim conjE)
    assume t: "sublist ''tutorial'' ?l" and u: "matching_weights unproductive_patterns ?l = {}"
    have "(''tutorial'', 0.9) \<in> set productive_patterns"
      by (simp add: productive_patterns_def)
    from table_maximum_ge[OF this t] have ge: "0.9 \<le> ?P" .
    then have "matching_weights productive_patterns ?l \<noteq> {}"
      by (auto simp: table_maximum_def split: if_splits)
    from productive_maximum_pos[OF this] ge have P: "?P = 0.9" by simp
    have U: "?U = 0" using u by (simp add: table_maximum_empty)
    show "keyword_decision content = (True, 0.9, ''educational_keywords'')"
      using c1 P U by simp
  qed
  have c7: "\<not> excessive_caps content \<and> \<not> excessive_punctuation content
        \<longrightarrow> verdict (classify_with_heuristics elapsed content) = keyword_decision content"
    by (simp add: verdict_classify_with_heuristics caps_override_eq punctuation_override_eq)
  have kd: "keyword_decision ''tutorial'' = (True, 0.9, ''educational_keywords'')"
    by code_simp
  have nc: "\<not> excessive_caps ''tutorial''"
    by code_simp
  have np: "\<not> excessive_punctuation ''tutorial''"
    by code_simp
  have c8: "classify_with_heuristics elapsed ''tutorial'' =
        \<lparr>is_productive = True, confidence = 0.9, reason = ''educational_keywords'',
         processing_time_ms = elapsed, success = True, error_message = []\<rparr>"
    by (simp add: classify_with_heuristics_def caps_override_eq punctuation_override_eq kd nc np)
  show ?thesis
    unfolding Let_def using c1 c2 c3 c4 c5 c6 c7 c8 by blast
qed


text \<open>The four cases and the override-free result, on concrete texts, among them texts
  in which the words of a phrase are separated by several whitespace characters.\<close>


lemma matching_weights_empty_iff:
  "matching_weights tbl hay = {} \<longleftrightarrow> (\<forall>pw \<in> set tbl. str_find hay (fst pw) = None)"
proof -
  have "matching_weights tbl hay = {} \<longleftrightarrow> (\<forall>pw \<in> set tbl. \<not> sublist (fst pw) hay)"
    by (force simp: matching_weights_def)
  then show ?thesis by (simp add: str_find_iff_sublist[symmetric])
qed

theorem keyword_decision_by_table_maxima_witness:
  "table_maximum unproductive_patterns (spec_normalized_text ''A  Tutorial'')
     < table_maximum productive_patterns (spec_normalized_text ''A  Tutorial'')
   \<and> keyword_decision ''A  Tutorial'' = (True, 0.9, ''educational_keywords'')
   \<and> table_maximum productive_patterns (spec_normalized_text ''gossip'')
     < table_maximum unproductive_patterns (spec_normalized_text ''gossip'')
   \<and> keyword_decision ''gossip'' = (False, 0.8, ''unproductive_keywords'')
   \<and> table_maximum productive_patterns (spec_normalized_text ''learn gossip'')
     = table_maximum unproductive_patterns (spec_normalized_text ''learn gossip'')
   \<and> keyword_decision ''learn gossip'' = (True, 0.5, ''mixed_content'')
   \<and> matching_weights productive_patterns (spec_normalized_text ''hello'') = {}
   \<and> matching_weights unproductive_patterns (spec_normalized_text ''hello'') = {}
   \<and> keyword_decision ''hello'' = (True, 0.6, ''neutral_content'')
   \<and> spec_normalized_text ''How   To cook'' = ''how to cook''
   \<and> lower_content ''How   To cook'' = ''how to cook''
   \<and> table_maximum unproductive_patterns (spec_normalized_text ''How   To cook'')
     < table_maximum productive_patterns (spec_normalized_text ''How   To cook'')
   \<and> keyword_decision ''How   To cook'' = (True, 0.9, ''educational_keywords'')
   \<and> spec_normalized_text tab_newline_text = ''you must see it''
   \<and> lower_content tab_newline_text = ''you must see it''
   \<and> table_maximum productive_patterns (spec_normalized_text tab_newline_text)
     < table_maximum unproductive_patterns (spec_normalized_text tab_newline_text)
   \<and> keyword_decision tab_newline_text = (False, 0.7, ''unproductive_keywords'')
   \<and> \<not> excessive_caps ''tutorial'' \<and> \<not> excessive_punctuation ''tutorial''
   \<and> verdict (classify_with_heuristics 0 ''tutorial'') = keyword_decision ''tutorial''"
proof -
  have a: "table_maximum unproductive_patterns (spec_normalized_text ''A  Tutorial'') = 0"
          "table_maximum productive_patterns (spec_normalized_text ''A  Tutorial'') = 0.9"
    by (simp_all only: table_maximum_productive[symmetric] table_maximum_unproductive[symmetric])
       (code_simp+)
  have b: "table_maximum unproductive_patterns (spec_normalized_text ''gossip'') = 0.8"
          "table_maximum productive_patterns (spec_normalized_text ''gossip'') = 0"
    by (simp_all only: table_maximum_productive[symmetric] table_maximum_unproductive[symmetric])
       (code_simp+)
  have c: "table_maximum unproductive_patterns (spec_normalized_text ''learn gossip'') = 0.8"
          "table_maximum productive_patterns (spec_normalized_text ''learn gossip'') = 0.8"
    by (simp_all only: table_maximum_productive[symmetric] table_maximum_unproductive[symmetric])
       (code_simp+)
  have d: "matching_weights productive_patterns (spec_normalized_text ''hello'') = {}"
          "matching_weights unproductive_patterns (spec_normalized_text ''hello'') = {}"
    by (simp_all only: matching_weights_empty_iff) (code_simp+)
  have e: "\<not> excessive_caps ''tutorial''" "\<not> excessive_punctuation ''tutorial''"
    by code_simp+
  have f: "table_maximum unproductive_patterns (spec_normalized_text ''How   To cook'') = 0"
          "table_maximum productive_patterns (spec_normalized_text ''How   To cook'') = 0.9"
    by (simp_all only: table_maximum_productive[symmetric] table_maximum_unproductive[symmetric])
       (code_simp+)
  have g: "table_maximum unproductive_patterns (spec_normalized_text tab_newline_text) = 0.7"
          "table_maximum productive_patterns (spec_normalized_text tab_newline_text) = 0"
    by (simp_all only: table_maximum_productive[symmetric] table_maximum_unproductive[symmetric])
       (code_simp+)
  have n: "spec_normalized_text ''How   To cook'' = ''how to cook''"
          "spec_normalized_text tab_newline_text = ''you must see it''"
          "lower_content ''How   To cook'' = ''how to cook''"
          "lower_content tab_newline_text = ''you must see it''"
    by code_simp+
  note t1 = keyword_decision_by_table_maxima[of "''A  Tutorial''" 0, unfolded Let_def]
  note t2 = keyword_decision_by_table_maxima[of "''gossip''" 0, unfolded Let_def]
  note t3 = keyword_decision_by_table_maxima[of "''learn gossip''" 0, unfolded Let_def]
  note t4 = keyword_decision_by_table_maxima[of "''hello''" 0, unfolded Let_def]
  note t5 = keyword_decision_by_table_maxima[of "''tutorial''" 0, unfolded Let_def]
  note t6 = keyword_decision_by_table_maxima[of "''How   To cook''" 0, unfolded Let_def]
  note t7 = keyword_decision_by_table_maxima[of tab_newline_text 0, unfolded Let_def]
  have k1: "keyword_decision ''A  Tutorial'' = (True, 0.9, ''educational_keywords'')"
    using t1 a by simp
  have k2: "keyword_decision ''gossip'' = (False, 0.8, ''unproductive_keywords'')"
    using t2 b by simp
  have k3: "keyword_decision ''learn gossip'' = (True, 0.5, ''mixed_content'')"
    using t3 c by simp
  have k4: "keyword_decision ''hello'' = (True, 0.6, ''neutral_content'')"
    using t4 d by blast
  have k5: "verdict (classify_with_heuristics 0 ''tutorial'') = keyword_decision ''tutorial''"
    using t5 e by blast
  have k6: "keyword_decision ''How   To cook'' = (True, 0.9, ''educational_keywords'')"
    using t6 f by simp
  have k7: "keyword_decision tab_newline_text = (False, 0.7, ''unproductive_keywords'')"
    using t7 g by simp
  have h1: "table_maximum unproductive_patterns (spec_normalized_text ''A  Tutorial'')
     < table_maximum productive_patterns (spec_normalized_text ''A  Tutorial'')"
    unfolding a by simp
  have h2: "table_maximum productive_patterns (spec_normalized_text ''gossip'')
     < table_maximum unproductive_patterns (spec_normalized_text ''gossip'')"
    unfolding b by simp
  have h3: "table_maximum productive_patterns (spec_normalized_text ''learn gossip'')
     = table_maximum unproductive_patterns (spec_normalized_text ''learn gossip'')"
    unfolding c by simp
  have h6: "table_maximum unproductive_patterns (spec_normalized_text ''How   To cook'')
     < table_maximum productive_patterns (spec_normalized_text ''How   To cook'')"
    unfolding f by simp
  have h7: "table_maximum productive_patterns (spec_normalized_text tab_newline_text)
     < table_maximum unproductive_patterns (spec_normalized_text tab_newline_text)"
    unfolding g by simp
  show ?thesis
    using h1 h2 h3 h6 h7 d e n k1 k2 k3 k4 k5 k6 k7 by blast
qed

subsection \<open>The surface-statistics overrides\<close>





subsection \<open>The wrapper: classification and loading\<close>

text \<open>
  Claim C2, as stated, fails: a failure does not carry the reason \<open>model not loaded\<close> or
  \<open>empty content\<close>. The \<open>reason\<close> of a failure is empty; the message is in
  \<open>error_message\<close> and reads \<open>Model not loaded\<close> or \<open>Empty content\<close>.
\<close>

theorem classify_content_failure_reason_is_empty:
  "reason (classify_content Impl_new stale_result 1 2 ''a tutorial'' []) = []
   \<and> reason (classify_content Impl_new stale_result 1 2 ''a tutorial'' []) \<noteq> ''model not loaded''
   \<and> error_message (classify_content Impl_new stale_result 1 2 ''a tutorial'' [])
       = ''Model not loaded''
   \<and> error_message (classify_content Impl_new stale_result 1 2 ''a tutorial'' [])
       \<noteq> ''model not loaded''
   \<and> reason (classify_content loaded_impl stale_result 1 2 [] []) = []
   \<and> reason (classify_content loaded_impl stale_result 1 2 [] []) \<noteq> ''empty content''
   \<and> error_message (classify_content loaded_impl stale_result 1 2 [] []) = ''Empty content''
   \<and> error_message (classify_content loaded_impl stale_result 1 2 [] []) \<noteq> ''empty content''"
  by code_simp

text \<open>
  Claim C2, amended. For every text and context, \<open>classify_content\<close> returns a failure
  exactly when the model is not loaded or the text is empty. When the model is not
  loaded the failure carries the error message \<open>Model not loaded\<close>; when it is loaded and
  the text is empty the failure carries the error message \<open>Empty content\<close>. The message
  is in \<open>error_message\<close>, and \<open>reason\<close> is empty. A failure reports no verdict and does
  no scoring: \<open>is_productive\<close> and \<open>confidence\<close> are never written (they are what the
  uninitialised record held). In every other case the result is the one of the
  heuristic classifier, with \<open>success\<close> set.
\<close>

theorem classify_content_failure_cases:
  "(let r = classify_content st uninit inner_ms outer_ms content context
    in (\<not> success r \<longleftrightarrow> \<not> model_loaded st \<or> content = [])
     \<and> (\<not> model_loaded st \<longrightarrow>
          r = uninit\<lparr>reason := [], error_message := ''Model not loaded'', success := False\<rparr>)
     \<and> (model_loaded st \<and> content = [] \<longrightarrow>
          r = uninit\<lparr>reason := [], error_message := ''Empty content'', success := False\<rparr>)
     \<and> (\<not> success r \<longrightarrow>
          is_productive r = is_productive uninit \<and> confidence r = confidence uninit
          \<and> reason r = [])
     \<and> (model_loaded st \<and> content \<noteq> [] \<longrightarrow>
          success r
          \<and> r = (classify_with_heuristics inner_ms content)\<lparr>processing_time_ms := outer_ms\<rparr>))"
proof -
  have s: "success (classify_with_heuristics e c)" for e c
    by (simp add: classify_with_heuristics_def split: prod.splits)
  show ?thesis
    by (simp add: classify_content_def Let_def s)
qed

theorem classify_content_failure_cases_witness:
  "\<not> model_loaded Impl_new
   \<and> classify_content Impl_new stale_result 1 2 ''a tutorial'' [] =
       \<lparr>is_productive = True, confidence = 0.25, reason = [], processing_time_ms = 7,
        success = False, error_message = ''Model not loaded''\<rparr>
   \<and> model_loaded loaded_impl
   \<and> classify_content loaded_impl stale_result 1 2 [] [] =
       \<lparr>is_productive = True, confidence = 0.25, reason = [], processing_time_ms = 7,
        success = False, error_message = ''Empty content''\<rparr>
   \<and> success (classify_content loaded_impl stale_result 1 2 ''a tutorial'' [])
   \<and> classify_content loaded_impl stale_result 1 2 ''a tutorial'' [] =
       (classify_with_heuristics 1 ''a tutorial'')\<lparr>processing_time_ms := 2\<rparr>"
proof -
  have a: "\<not> model_loaded Impl_new" "model_loaded loaded_impl"
    by (simp_all add: Impl_new_def loaded_impl_def)
  note t1 = classify_content_failure_cases[of Impl_new stale_result 1 2 "''a tutorial''" "[]",
      unfolded Let_def]
  note t2 = classify_content_failure_cases[of loaded_impl stale_result 1 2 "[]" "[]",
      unfolded Let_def]
  note t3 = classify_content_failure_cases[of loaded_impl stale_result 1 2 "''a tutorial''" "[]",
      unfolded Let_def]
  have ne: "''a tutorial'' \<noteq> []" by simp
  have k1: "classify_content Impl_new stale_result 1 2 ''a tutorial'' [] =
       stale_result\<lparr>reason := [], error_message := ''Model not loaded'', success := False\<rparr>"
    using t1 a by blast
  have k2: "classify_content loaded_impl stale_result 1 2 [] [] =
       stale_result\<lparr>reason := [], error_message := ''Empty content'', success := False\<rparr>"
    using t2 a by blast
  have k3: "success (classify_content loaded_impl stale_result 1 2 ''a tutorial'' [])
     \<and> classify_content loaded_impl stale_result 1 2 ''a tutorial'' [] =
       (classify_with_heuristics 1 ''a tutorial'')\<lparr>processing_time_ms := 2\<rparr>"
    using t3 a(2) ne by blast
  have k1': "classify_content Impl_new stale_result 1 2 ''a tutorial'' [] =
       \<lparr>is_productive = True, confidence = 0.25, reason = [], processing_time_ms = 7,
        success = False, error_message = ''Model not loaded''\<rparr>"
    unfolding k1 by (simp add: stale_result_def)
  have k2': "classify_content loaded_impl stale_result 1 2 [] [] =
       \<lparr>is_productive = True, confidence = 0.25, reason = [], processing_time_ms = 7,
        success = False, error_message = ''Empty content''\<rparr>"
    unfolding k2 by (simp add: stale_result_def)
  show ?thesis
    using a k1' k2' k3 by blast
qed

text \<open>
  Claim C6, as stated, fails: \<open>load_model\<close> only checks that the stream opened
  (\<^verbatim>\<open>file.good()\<close>), so an empty readable file loads and marks the model loaded.
\<close>

theorem load_model_accepts_empty_file:
  "fst (load_model (single_file_fs []) Impl_new gguf_config)
   \<and> model_loaded (snd (load_model (single_file_fs []) Impl_new gguf_config))
   \<and> \<not> nonempty_readable (single_file_fs []) (model_path gguf_config)"
  by (simp add: load_model_def ifstream_open_def single_file_fs_def gguf_config_def
      nonempty_readable_def Let_def)

text \<open>
  Claim C6, amended. In fallback mode \<open>load_model\<close> returns true if and only if the file
  at the configured path exists and is readable, whatever its size, and then marks the
  model loaded. On failure it returns false and leaves the loaded flag as it was, so a
  manager that was unloaded stays unloaded. The configuration is stored in both cases.
\<close>

theorem load_model_iff_openable:
  "(fst (load_model fs st config) \<longleftrightarrow>
      (\<exists>f. files fs (model_path config) = Some f \<and> readable f))
   \<and> (fst (load_model fs st config) \<longrightarrow> model_loaded (snd (load_model fs st config)))
   \<and> (\<not> fst (load_model fs st config) \<longrightarrow>
        model_loaded (snd (load_model fs st config)) = model_loaded st)
   \<and> (\<not> model_loaded st \<longrightarrow>
        model_loaded (snd (load_model fs st config)) = fst (load_model fs st config))
   \<and> model_config (snd (load_model fs st config)) = config"
  by (auto simp: load_model_def ifstream_open_def Let_def split: option.splits)

theorem load_model_iff_openable_witness:
  "fst (load_model (single_file_fs ''GGUF'') Impl_new gguf_config)
   \<and> model_loaded (snd (load_model (single_file_fs ''GGUF'') Impl_new gguf_config))
   \<and> \<not> fst (load_model (single_file_fs ''GGUF'') Impl_new missing_config)
   \<and> \<not> model_loaded Impl_new
   \<and> \<not> model_loaded (snd (load_model (single_file_fs ''GGUF'') Impl_new missing_config))
   \<and> \<not> fst (load_model (single_file_fs ''GGUF'') loaded_impl missing_config)
   \<and> model_loaded (snd (load_model (single_file_fs ''GGUF'') loaded_impl missing_config))"
proof -
  have a: "\<exists>f. files (single_file_fs ''GGUF'') (model_path gguf_config) = Some f \<and> readable f"
    by (simp add: single_file_fs_def gguf_config_def)
  have b: "\<not> (\<exists>f. files (single_file_fs ''GGUF'') (model_path missing_config) = Some f \<and> readable f)"
    by (simp add: single_file_fs_def missing_config_def)
  have c: "\<not> model_loaded Impl_new" "model_loaded loaded_impl"
    by (simp_all add: Impl_new_def loaded_impl_def)
  note t1 = load_model_iff_openable[of "single_file_fs ''GGUF''" Impl_new gguf_config]
  note t2 = load_model_iff_openable[of "single_file_fs ''GGUF''" Impl_new missing_config]
  note t3 = load_model_iff_openable[of "single_file_fs ''GGUF''" loaded_impl missing_config]
  show ?thesis
    using t1 t2 t3 a b c by blast
qed

subsection \<open>The model file validator\<close>

text \<open>
  Claim C7. The validator returns true if and only if the file exists and is readable,
  has at least 1024 bytes and begins with the four bytes \<open>GGUF\<close>; a missing file is
  rejected; a 500-byte file is rejected whatever its first bytes; a readable 1025-byte
  file that begins with the magic is accepted.
\<close>

theorem validate_model_file_iff:
  "(validate_model_file fs filepath \<longleftrightarrow>
      (\<exists>f. files fs filepath = Some f \<and> readable f \<and> 1024 \<le> length (bytes f)
           \<and> take 4 (bytes f) = ''GGUF''))
   \<and> (files fs filepath = None \<longrightarrow> \<not> validate_model_file fs filepath)
   \<and> (files fs filepath = Some f \<and> length (bytes f) = 500
        \<longrightarrow> \<not> validate_model_file fs filepath)
   \<and> (files fs filepath = Some f \<and> readable f \<and> length (bytes f) = 1025
        \<and> take 4 (bytes f) = ''GGUF'' \<longrightarrow> validate_model_file fs filepath)"
  by (auto simp: validate_model_file_def ifstream_open_def Let_def split: option.splits)

theorem validate_model_file_iff_witness:
  "files (single_file_fs small_gguf) ''m.gguf'' = Some \<lparr>readable = True, bytes = small_gguf\<rparr>
   \<and> length small_gguf = 500 \<and> take 4 small_gguf = ''GGUF''
   \<and> \<not> validate_model_file (single_file_fs small_gguf) ''m.gguf''
   \<and> files (single_file_fs valid_gguf) ''m.gguf'' = Some \<lparr>readable = True, bytes = valid_gguf\<rparr>
   \<and> length valid_gguf = 1025 \<and> take 4 valid_gguf = ''GGUF''
   \<and> validate_model_file (single_file_fs valid_gguf) ''m.gguf''
   \<and> files (single_file_fs valid_gguf) ''absent.gguf'' = None
   \<and> \<not> validate_model_file (single_file_fs valid_gguf) ''absent.gguf''"
proof -
  have a: "files (single_file_fs small_gguf) ''m.gguf'' = Some \<lparr>readable = True, bytes = small_gguf\<rparr>"
          "files (single_file_fs valid_gguf) ''m.gguf'' = Some \<lparr>readable = True, bytes = valid_gguf\<rparr>"
          "files (single_file_fs valid_gguf) ''absent.gguf'' = None"
    by (simp_all add: single_file_fs_def)
  have b: "length small_gguf = 500" "take 4 small_gguf = ''GGUF''"
          "length valid_gguf = 1025" "take 4 valid_gguf = ''GGUF''"
    by (simp_all add: small_gguf_def valid_gguf_def)
  note t1 = validate_model_file_iff[of "single_file_fs small_gguf" "''m.gguf''"
      "\<lparr>readable = True, bytes = small_gguf\<rparr>"]
  note t2 = validate_model_file_iff[of "single_file_fs valid_gguf" "''m.gguf''"
      "\<lparr>readable = True, bytes = valid_gguf\<rparr>"]
  note t3 = validate_model_file_iff[of "single_file_fs valid_gguf" "''absent.gguf''"]
  have k1: "\<not> validate_model_file (single_file_fs small_gguf) ''m.gguf''"
    using t1 a(1) b(1) by simp
  have k2: "validate_model_file (single_file_fs valid_gguf) ''m.gguf''"
    using t2 a(2) b(3,4) by simp
  have k3: "\<not> validate_model_file (single_file_fs valid_gguf) ''absent.gguf''"
    using t3 a(3) by blast
  show ?thesis using a b k1 k2 k3 by blast
qed

subsection \<open>The category detector\<close>












subsection \<open>The context adjustment\<close>

lemma apply_context_adjustments_rules:
  "apply_context_adjustments r ctx = length_rule ctx (category_rule ctx (app_rule ctx r))"
proof -
  have r1: "(if str_find (app_package ctx) ''linkedin'' \<noteq> None then
           (if is_productive r
            then r\<lparr>confidence := min 1.0 (confidence r + 0.2),
                        reason := reason r @ ''_linkedin_boost''\<rparr>
            else r)
         else if str_find (app_package ctx) ''tiktok'' \<noteq> None then
           (if \<not> is_productive r
            then r\<lparr>confidence := min 1.0 (confidence r + 0.1),
                        reason := reason r @ ''_tiktok_penalty''\<rparr>
            else r)
         else r) = app_rule ctx r"
    unfolding app_rule_def boost_def str_find_iff_sublist by simp
  have r2: "(case category ctx of
           EDUCATIONAL \<Rightarrow>
             (if is_productive r1
              then r1\<lparr>confidence := min 1.0 (confidence r1 + 0.15),
                      reason := reason r1 @ ''_educational_boost''\<rparr>
              else r1)
         | ENTERTAINMENT \<Rightarrow>
             (if \<not> is_productive r1
              then r1\<lparr>confidence := min 1.0 (confidence r1 + 0.1),
                      reason := reason r1 @ ''_entertainment_penalty''\<rparr>
              else r1)
         | NEWS \<Rightarrow> r1
         | COMMERCIAL \<Rightarrow>
             (if \<not> is_productive r1
              then r1\<lparr>confidence := min 1.0 (confidence r1 + 0.2),
                      reason := reason r1 @ ''_commercial_penalty''\<rparr>
              else r1)
         | SOCIAL \<Rightarrow> r1
         | UNKNOWN \<Rightarrow> r1) = category_rule ctx r1" for r1
    unfolding category_rule_def boost_def by (cases "category ctx") simp_all
  have r3: "(if content_length ctx < 50 then
           r2\<lparr>confidence := confidence r2 * 0.8, reason := reason r2 @ ''_short_content''\<rparr>
         else if content_length ctx > 500 then
           (if is_productive r2
            then r2\<lparr>confidence := min 1.0 (confidence r2 + 0.1),
                    reason := reason r2 @ ''_long_content_boost''\<rparr>
            else r2)
         else r2) = length_rule ctx r2" for r2
    unfolding length_rule_def boost_def by simp
  show ?thesis
    unfolding apply_context_adjustments_def Let_def r1 r2 r3 ..
qed

lemma boost_props:
  "is_productive (boost a tag x) = is_productive x"
  "reason (boost a tag x) = reason x @ tag"
  "confidence (boost a tag x) = min 1 (confidence x + a)"
  "success (boost a tag x) = success x"
  by (simp_all add: boost_def)

lemma app_rule_props:
  "is_productive (app_rule ctx x) = is_productive x"
  "prefix (reason x) (reason (app_rule ctx x))"
  "confidence x \<le> 1 \<longrightarrow> confidence (app_rule ctx x) \<le> 1"
  "0 \<le> confidence x \<longrightarrow> 0 \<le> confidence (app_rule ctx x)"
  by (simp_all add: app_rule_def boost_props)

lemma category_rule_props:
  "is_productive (category_rule ctx x) = is_productive x"
  "prefix (reason x) (reason (category_rule ctx x))"
  "confidence x \<le> 1 \<longrightarrow> confidence (category_rule ctx x) \<le> 1"
  "0 \<le> confidence x \<longrightarrow> 0 \<le> confidence (category_rule ctx x)"
  by (simp_all add: category_rule_def boost_props)

lemma length_rule_props:
  "is_productive (length_rule ctx x) = is_productive x"
  "prefix (reason x) (reason (length_rule ctx x))"
  "confidence x \<le> 1 \<longrightarrow> confidence (length_rule ctx x) \<le> 1"
  "0 \<le> confidence x \<longrightarrow> 0 \<le> confidence (length_rule ctx x)"
  by (auto simp: length_rule_def boost_props)

text \<open>
  Claim C4. For every base result and every context, \<open>apply_context_adjustments\<close> is the
  application-hint rule, then the category rule, then the content-length rule. No rule
  changes the verdict; each leaves the reason as it is or appends its tag to it; each
  additive rule clamps the confidence at \<open>1\<close>, and a confidence that is at most \<open>1\<close>
  before a rule is at most \<open>1\<close> after it, hence after all three. On a productive result
  of confidence \<open>0.5\<close> the category rule of an Educational context gives confidence
  \<open>0.65\<close> and appends \<open>_educational_boost\<close>; this is the result of the whole adjustment
  when the application has no professional-network hint and the length is between 50
  and 500, and in every Educational context the reason of a productive result contains
  \<open>_educational_boost\<close>.
\<close>

theorem context_adjustments_rules_in_order:
  "apply_context_adjustments r ctx = length_rule ctx (category_rule ctx (app_rule ctx r))
   \<and> is_productive (apply_context_adjustments r ctx) = is_productive r
   \<and> prefix (reason r) (reason (apply_context_adjustments r ctx))
   \<and> (confidence r \<le> 1 \<longrightarrow> confidence (apply_context_adjustments r ctx) \<le> 1)
   \<and> (0 \<le> confidence r \<longrightarrow> 0 \<le> confidence (apply_context_adjustments r ctx))
   \<and> is_productive (app_rule ctx x) = is_productive x
   \<and> is_productive (category_rule ctx x) = is_productive x
   \<and> is_productive (length_rule ctx x) = is_productive x
   \<and> prefix (reason x) (reason (app_rule ctx x))
   \<and> prefix (reason x) (reason (category_rule ctx x))
   \<and> prefix (reason x) (reason (length_rule ctx x))
   \<and> (confidence x \<le> 1 \<longrightarrow> confidence (app_rule ctx x) \<le> 1
        \<and> confidence (category_rule ctx x) \<le> 1 \<and> confidence (length_rule ctx x) \<le> 1)
   \<and> (category ctx = EDUCATIONAL \<and> is_productive x \<and> confidence x = 0.5 \<longrightarrow>
        category_rule ctx x = x\<lparr>confidence := 0.65, reason := reason x @ ''_educational_boost''\<rparr>)
   \<and> (category ctx = EDUCATIONAL \<and> is_productive r \<and> confidence r = 0.5
        \<and> \<not> sublist ''linkedin'' (app_package ctx)
        \<and> 50 \<le> content_length ctx \<and> content_length ctx \<le> 500 \<longrightarrow>
        apply_context_adjustments r ctx =
          r\<lparr>confidence := 0.65, reason := reason r @ ''_educational_boost''\<rparr>)
   \<and> (category ctx = EDUCATIONAL \<and> is_productive r \<longrightarrow>
        sublist ''_educational_boost'' (reason (apply_context_adjustments r ctx)))"
proof -
  let ?a = "app_rule ctx r"
  let ?c = "category_rule ctx ?a"
  let ?l = "length_rule ctx ?c"
  note d = apply_context_adjustments_rules[of r ctx]
  have p: "is_productive ?l = is_productive r"
    by (simp add: app_rule_props category_rule_props length_rule_props)
  have q: "prefix (reason r) (reason ?l)"
    using app_rule_props(2)[where ctx=ctx and x="r"] category_rule_props(2)[where ctx=ctx and x="?a"]
      length_rule_props(2)[where ctx=ctx and x="?c"]
    by (meson prefix_order.trans)
  have hi: "confidence r \<le> 1 \<longrightarrow> confidence ?l \<le> 1"
    using app_rule_props(3)[where ctx=ctx and x="r"] category_rule_props(3)[where ctx=ctx and x="?a"]
      length_rule_props(3)[where ctx=ctx and x="?c"] by blast
  have lo: "0 \<le> confidence r \<longrightarrow> 0 \<le> confidence ?l"
    using app_rule_props(4)[where ctx=ctx and x="r"] category_rule_props(4)[where ctx=ctx and x="?a"]
      length_rule_props(4)[where ctx=ctx and x="?c"] by blast
  have e1: "category ctx = EDUCATIONAL \<and> is_productive x \<and> confidence x = 0.5 \<longrightarrow>
        category_rule ctx x = x\<lparr>confidence := 0.65, reason := reason x @ ''_educational_boost''\<rparr>"
    by (simp add: category_rule_def boost_def)
  have e2: "category ctx = EDUCATIONAL \<and> is_productive r \<and> confidence r = 0.5
        \<and> \<not> sublist ''linkedin'' (app_package ctx)
        \<and> 50 \<le> content_length ctx \<and> content_length ctx \<le> 500 \<longrightarrow>
        ?l = r\<lparr>confidence := 0.65, reason := reason r @ ''_educational_boost''\<rparr>"
    by (simp add: app_rule_def category_rule_def length_rule_def boost_def)
  have e3: "category ctx = EDUCATIONAL \<and> is_productive r \<longrightarrow>
        sublist ''_educational_boost'' (reason ?l)"
  proof (intro impI, elim conjE)
    assume c: "category ctx = EDUCATIONAL" and pr: "is_productive r"
    have "reason ?c = reason ?a @ ''_educational_boost''"
      using c pr by (simp add: category_rule_def boost_props app_rule_props)
    then have "sublist ''_educational_boost'' (reason ?c)"
      by (metis sublist_append_leftI)
    moreover have "sublist (reason ?c) (reason ?l)"
      using length_rule_props(2)[where ctx=ctx and x="?c"] by (rule prefix_imp_sublist)
    ultimately show "sublist ''_educational_boost'' (reason ?l)"
      by (rule sublist_order.order.trans)
  qed
  show ?thesis
    unfolding d
    using p q hi lo e1 e2 e3 app_rule_props[where ctx=ctx and x="x"] category_rule_props[where ctx=ctx and x="x"]
      length_rule_props[where ctx=ctx and x="x"]
    by blast
qed

theorem context_adjustments_rules_in_order_witness:
  "category educational_context = EDUCATIONAL \<and> is_productive base_half
   \<and> confidence base_half = 0.5
   \<and> \<not> sublist ''linkedin'' (app_package educational_context)
   \<and> 50 \<le> content_length educational_context \<and> content_length educational_context \<le> 500
   \<and> apply_context_adjustments base_half educational_context =
       \<lparr>is_productive = True, confidence = 0.65, reason = ''mixed_content_educational_boost'',
        processing_time_ms = 3, success = True, error_message = []\<rparr>
   \<and> confidence base_high \<le> 1
   \<and> confidence (apply_context_adjustments base_high linkedin_context) \<le> 1
   \<and> apply_context_adjustments base_high linkedin_context =
       \<lparr>is_productive = True, confidence = 1,
        reason = ''educational_keywords_linkedin_boost_educational_boost_long_content_boost'',
        processing_time_ms = 3, success = True, error_message = []\<rparr>"
proof -
  have a: "category educational_context = EDUCATIONAL" "is_productive base_half"
          "confidence base_half = 0.5"
          "\<not> sublist ''linkedin'' (app_package educational_context)"
          "50 \<le> content_length educational_context" "content_length educational_context \<le> 500"
    by (simp_all add: educational_context_def base_half_def str_find_iff_sublist[symmetric])
  have b: "confidence base_high \<le> 1"
    by (simp add: base_high_def)
  note t1 = context_adjustments_rules_in_order[of base_half educational_context base_half]
  note t2 = context_adjustments_rules_in_order[of base_high linkedin_context base_high]
  have k1: "apply_context_adjustments base_half educational_context =
       base_half\<lparr>confidence := 0.65, reason := reason base_half @ ''_educational_boost''\<rparr>"
    using t1 a by blast
  have k1': "apply_context_adjustments base_half educational_context =
       \<lparr>is_productive = True, confidence = 0.65, reason = ''mixed_content_educational_boost'',
        processing_time_ms = 3, success = True, error_message = []\<rparr>"
    unfolding k1 by (simp add: base_half_def)
  have k2: "confidence (apply_context_adjustments base_high linkedin_context) \<le> 1"
    using t2 b by blast
  have k3: "apply_context_adjustments base_high linkedin_context =
       \<lparr>is_productive = True, confidence = 1,
        reason = ''educational_keywords_linkedin_boost_educational_boost_long_content_boost'',
        processing_time_ms = 3, success = True, error_message = []\<rparr>"
    by code_simp
  show ?thesis
    using a b k1' k2 k3 by blast
qed

subsection \<open>The progress events of a download\<close>

lemma download_loop_unrolled:
  "download_loop cb 0 s = fold (notify cb) (map step_event loop_steps) s"
  by (simp add: loop_steps_def)

lemma notify_record: "notify (Some record_event) p es = es @ [p]"
  by (simp add: notify_def record_event_def)

lemma fold_notify_record: "fold (notify (Some record_event)) ps es = es @ ps"
  by (induction ps arbitrary: es) (simp_all add: notify_record)

lemma delivered_eq:
  "delivered fs model_info target_path =
     start_event # map step_event loop_steps @ [final_event (can_write fs target_path)]"
  by (simp add: delivered_def download_model_async_def notify_record
      create_placeholder_model_def Let_def loop_steps_def)

lemma download_result:
  "fst (download_model_async fs model_info target_path cb s) = can_write fs target_path"
  by (simp add: download_model_async_def create_placeholder_model_def Let_def)

lemma fold_notify_Some: "fold (notify (Some f)) ps s = fold f ps s"
  by (induction ps arbitrary: s) (simp_all add: notify_def)

lemma callback_state:
  "snd (snd (download_model_async fs model_info target_path (Some f) s)) =
     fold f (delivered fs model_info target_path) s"
  by (simp add: delivered_eq download_model_async_def loop_steps_def
      create_placeholder_model_def Let_def notify_def)

lemma progress_values:
  "map progress (delivered fs model_info target_path) =
     [0, 0, 0.1, 0.2, 0.3, 0.4, 0.5, 0.6, 0.7, 0.8, 0.9, 1, 1]"
  by (simp add: delivered_eq loop_steps_def start_event_def step_event_def final_event_def)

lemma status_values:
  "map status (delivered fs model_info target_path) =
     replicate 12 DOWNLOADING @ [if can_write fs target_path then LOADED else ERROR]"
  by (simp add: delivered_eq loop_steps_def start_event_def step_event_def final_event_def
      numeral_eq_Suc)


lemma delivered_butlast:
  "butlast (delivered fs model_info target_path) = start_event # map step_event loop_steps"
  by (simp add: delivered_eq butlast_append)

lemma delivered_last:
  "last (delivered fs model_info target_path) = final_event (can_write fs target_path)"
  by (simp add: delivered_eq)

text \<open>
  Claim C9, as stated, fails: the progress values of a run are not strictly increasing.
  The start event and the first loop event both carry \<open>0\<close>, and the last loop event and
  the terminal event both carry \<open>1\<close>.
\<close>

theorem download_progress_not_strictly_increasing:
  "map progress (delivered (single_file_fs []) get_default_model ''m.gguf'') =
     [0, 0, 0.1, 0.2, 0.3, 0.4, 0.5, 0.6, 0.7, 0.8, 0.9, 1, 1]
   \<and> \<not> sorted_wrt (<) (map progress (delivered (single_file_fs []) get_default_model ''m.gguf''))"
  by (simp add: progress_values)

text \<open>
  Claim C9, amended. For any run with a callback, the progress values delivered are
  non-decreasing and lie between \<open>0\<close> and \<open>1\<close>; the run ends with exactly one terminal
  event, the last one, whose status is Loaded when the file was written and Error
  otherwise; every earlier event has status Downloading; the values of the loop events
  (all events but the first and the last) are strictly increasing. The caller's state
  after the run is the callback folded over these events, and without a callback it is
  untouched.
\<close>

theorem download_progress_nondecreasing:
  "(let es = delivered fs model_info target_path
    in sorted (map progress es)
     \<and> (\<forall>e \<in> set es. 0 \<le> progress e \<and> progress e \<le> 1)
     \<and> es \<noteq> []
     \<and> status (last es) =
         (if fst (download_model_async fs model_info target_path (Some f) s)
          then LOADED else ERROR)
     \<and> (\<forall>e \<in> set (butlast es). status e = DOWNLOADING)
     \<and> filter (\<lambda>e. status e = LOADED \<or> status e = ERROR) es = [last es]
     \<and> sorted_wrt (<) (map progress (tl (butlast es)))
     \<and> snd (snd (download_model_async fs model_info target_path (Some f) s)) = fold f es s)
   \<and> snd (snd (download_model_async fs model_info target_path None s)) = s"
proof -
  let ?es = "delivered fs model_info target_path"
  have c1: "sorted (map progress ?es)"
    unfolding progress_values by simp
  have "\<forall>x \<in> set (map progress ?es). 0 \<le> x \<and> x \<le> 1"
    unfolding progress_values by simp
  then have c2: "\<forall>e \<in> set ?es. 0 \<le> progress e \<and> progress e \<le> 1"
    by simp
  have c3: "?es \<noteq> []"
    by (simp add: delivered_eq)
  have c4: "status (last ?es) =
         (if fst (download_model_async fs model_info target_path (Some f) s)
          then LOADED else ERROR)"
    by (simp add: delivered_last download_result final_event_def)
  have c5: "\<forall>e \<in> set (butlast ?es). status e = DOWNLOADING"
    by (simp add: delivered_butlast start_event_def step_event_def)
  have fl: "status (final_event ok) = LOADED \<or> status (final_event ok) = ERROR" for ok
    by (simp add: final_event_def)
  have c6: "filter (\<lambda>e. status e = LOADED \<or> status e = ERROR) ?es = [last ?es]"
    unfolding delivered_last unfolding delivered_eq
    by (simp add: fl start_event_def step_event_def)
  have c7: "sorted_wrt (<) (map progress (tl (butlast ?es)))"
    by (simp add: delivered_butlast loop_steps_def step_event_def)
  have c8: "snd (snd (download_model_async fs model_info target_path (Some f) s)) = fold f ?es s"
    by (rule callback_state)
  have c9: "snd (snd (download_model_async fs model_info target_path None s)) = s"
    by (simp add: download_model_async_def create_placeholder_model_def Let_def notify_def)
  show ?thesis
    unfolding Let_def using c1 c2 c3 c4 c5 c6 c7 c8 c9 by blast
qed

theorem download_progress_nondecreasing_witness:
  "sorted (map progress (delivered (single_file_fs []) get_default_model ''m.gguf''))
   \<and> start_event \<in> set (delivered (single_file_fs []) get_default_model ''m.gguf'')
   \<and> 0 \<le> progress start_event \<and> progress start_event \<le> 1
   \<and> start_event \<in> set (butlast (delivered (single_file_fs []) get_default_model ''m.gguf''))
   \<and> status start_event = DOWNLOADING
   \<and> fst (download_model_async (single_file_fs []) get_default_model ''m.gguf''
            (Some record_event) [])
   \<and> status (last (delivered (single_file_fs []) get_default_model ''m.gguf'')) = LOADED
   \<and> \<not> fst (download_model_async (single_file_fs []) get_default_model ''locked.gguf''
            (Some record_event) [])
   \<and> status (last (delivered (single_file_fs []) get_default_model ''locked.gguf'')) = ERROR
   \<and> length (delivered (single_file_fs []) get_default_model ''m.gguf'') = 13"
proof -
  let ?es = "delivered (single_file_fs []) get_default_model ''m.gguf''"
  note t1 = download_progress_nondecreasing[of "single_file_fs []" get_default_model
      "''m.gguf''" record_event "[]", unfolded Let_def]
  note t2 = download_progress_nondecreasing[of "single_file_fs []" get_default_model
      "''locked.gguf''" record_event "[]", unfolded Let_def]
  have a: "start_event \<in> set ?es" "start_event \<in> set (butlast ?es)"
    by (simp_all add: delivered_eq butlast_append)
  have b: "fst (download_model_async (single_file_fs []) get_default_model ''m.gguf''
            (Some record_event) [])"
          "\<not> fst (download_model_async (single_file_fs []) get_default_model ''locked.gguf''
            (Some record_event) [])"
    by (simp_all add: download_result single_file_fs_def)
  have k1: "sorted (map progress ?es)" using t1 by blast
  have k2: "0 \<le> progress start_event \<and> progress start_event \<le> 1" using t1 a(1) by blast
  have k3: "status start_event = DOWNLOADING" using t1 a(2) by blast
  have k4: "status (last ?es) = LOADED" using t1 b(1) by simp
  have k5: "status (last (delivered (single_file_fs []) get_default_model ''locked.gguf'')) = ERROR"
    using t2 b(2) by simp
  have k6: "length ?es = 13"
    by (simp add: delivered_eq loop_steps_def)
  show ?thesis
    using a b k1 k2 k3 k4 k5 k6 by blast
qed

subsection \<open>The two normalizations\<close>

































end
